theory Spec2Isabelle
  imports Main "HOL-Library.Option_ord"
begin

section \<open>The authorization layer\<close>

text \<open>
  \<^verbatim>\<open>api.py\<close> imports \<^verbatim>\<open>AuthError\<close> and \<^verbatim>\<open>requires_auth\<close> from
  \<^verbatim>\<open>.auth.auth\<close>. That module is described by the specification (sections 3, 4
  and 6); the definitions of this section follow its wording.
\<close>

datatype RejectionKind =
    MissingHeader | MalformedHeader | UnsupportedScheme
  | MalformedToken
  | UnsupportedAlgorithm | UnknownSigningKey | InvalidSignature
  | TokenExpired | IssuerMismatch | AudienceMismatch
  | PermissionsClaimMissing | PermissionDenied

text \<open>
  Modelled from the spec: the status table of section 4.4 of the authorization module
  \<^verbatim>\<open>auth/auth.py\<close>: every rejection kind has one HTTP status.
\<close>

fun http_status :: "RejectionKind \<Rightarrow> nat" where
  "http_status MissingHeader = 401"
| "http_status MalformedHeader = 401"
| "http_status UnsupportedScheme = 401"
| "http_status MalformedToken = 401"
| "http_status UnsupportedAlgorithm = 401"
| "http_status UnknownSigningKey = 401"
| "http_status InvalidSignature = 401"
| "http_status TokenExpired = 401"
| "http_status IssuerMismatch = 401"
| "http_status AudienceMismatch = 401"
| "http_status PermissionsClaimMissing = 403"
| "http_status PermissionDenied = 403"

subsection \<open>Credential Extractor\<close>

text \<open>
  The parts of a string separated by one character, as \<^verbatim>\<open>str.split(sep)\<close> gives
  them: a string without the separator is one part, and two separators in a row
  enclose an empty part.
\<close>

fun split_on :: "char \<Rightarrow> string \<Rightarrow> string list" where
  "split_on c [] = [[]]"
| "split_on c (x # xs) =
     (if x = c then [] # split_on c xs
      else (case split_on c xs of
              [] \<Rightarrow> [[x]]
            | part # parts \<Rightarrow> (x # part) # parts))"

text \<open>
  Modelled from the spec: \<^verbatim>\<open>extract\<close> of section 4.1 (the header parser of
  \<^verbatim>\<open>auth/auth.py\<close>), named \<open>extract_token\<close> here. An absent header is
  \<open>None\<close>. The checks are made in the order the specification lists them.
\<close>

definition extract_token :: "string option \<Rightarrow> RejectionKind + string" where
  "extract_token raw_header =
     (case raw_header of
        None \<Rightarrow> Inl MissingHeader
      | Some h \<Rightarrow>
          (let parts = split_on CHR '' '' h in
           if length parts \<noteq> 2 then Inl MalformedHeader
           else if parts ! 0 \<noteq> ''Bearer'' then Inl UnsupportedScheme
           else Inr (parts ! 1)))"

subsection \<open>Signature and Claims Verifier\<close>

record token_header =
  alg :: string
  kid :: string

text \<open>
  The claims the authorization layer reads. \<open>claim_permissions\<close> is \<open>None\<close> when the
  claim set has no \<^verbatim>\<open>permissions\<close> entry. An audience that is one string is the
  one-element list.
\<close>

record claim_set =
  claim_iss :: string
  claim_aud :: "string list"
  claim_exp :: int
  claim_permissions :: "string list option"

text \<open>
  The primitives of the token library, taken as parameters: decoding a base64url
  segment into the header or the payload (\<open>None\<close> when the segment does not decode
  or does not parse), and checking a signature over a signing input with a public
  key and an algorithm.
\<close>

record 'key jose =
  decode_header :: "string \<Rightarrow> token_header option"
  decode_payload :: "string \<Rightarrow> claim_set option"
  signature_ok :: "'key \<Rightarrow> string \<Rightarrow> string \<Rightarrow> string \<Rightarrow> bool"

record verifier_config =
  expected_issuer :: string
  expected_audience :: string
  now :: int

text \<open>The one algorithm the policy allows: the asymmetric RS256.\<close>

definition ALGORITHM :: string where
  "ALGORITHM = ''RS256''"

text \<open>
  Modelled from the spec: \<^verbatim>\<open>verify\<close> of section 4.2 (the token verifier of
  \<^verbatim>\<open>auth/auth.py\<close>), steps 1 to 6 in sequence. Step 1 parses the header segment
  and step 2 checks the algorithm it declares; the payload is decoded after that, so
  that a disallowed algorithm is rejected whatever the payload holds (section 8). The
  key set maps a key-id to its public key.
\<close>

definition verify ::
  "'key jose \<Rightarrow> verifier_config \<Rightarrow> string \<Rightarrow> (string \<rightharpoonup> 'key) \<Rightarrow> RejectionKind + claim_set"
where
  "verify lib cfg token key_set =
     (case split_on CHR ''.'' token of
        [h, p, s] \<Rightarrow>
          (case decode_header lib h of
             None \<Rightarrow> Inl MalformedToken
           | Some hdr \<Rightarrow>
               if alg hdr \<noteq> ALGORITHM then Inl UnsupportedAlgorithm
               else
                 (case decode_payload lib p of
                    None \<Rightarrow> Inl MalformedToken
                  | Some claims \<Rightarrow>
                      (case key_set (kid hdr) of
                         None \<Rightarrow> Inl UnknownSigningKey
                       | Some key \<Rightarrow>
                           if \<not> signature_ok lib key (alg hdr) (h @ ''.'' @ p) s
                           then Inl InvalidSignature
                           else if claim_exp claims \<le> now cfg then Inl TokenExpired
                           else if claim_iss claims \<noteq> expected_issuer cfg
                           then Inl IssuerMismatch
                           else if expected_audience cfg \<notin> set (claim_aud claims)
                           then Inl AudienceMismatch
                           else Inr claims)))
      | _ \<Rightarrow> Inl MalformedToken)"

subsection \<open>Permission Enforcer\<close>

text \<open>
  Modelled from the spec: \<^verbatim>\<open>check\<close> of section 4.3 (the permission check of
  \<^verbatim>\<open>auth/auth.py\<close>).
\<close>

definition check :: "claim_set \<Rightarrow> string \<Rightarrow> RejectionKind + unit" where
  "check claims required =
     (case claim_permissions claims of
        None \<Rightarrow> Inl PermissionsClaimMissing
      | Some granted \<Rightarrow>
          if required \<in> set granted then Inr () else Inl PermissionDenied)"

subsection \<open>Authorization Gate\<close>

text \<open>
  Modelled from the spec: \<^verbatim>\<open>authorize\<close> of section 4.4, composing the three
  components in sequence and stopping at the first failure.
\<close>

definition authorize ::
  "'key jose \<Rightarrow> verifier_config \<Rightarrow> string option \<Rightarrow> string \<Rightarrow> (string \<rightharpoonup> 'key)
     \<Rightarrow> RejectionKind + claim_set"
where
  "authorize lib cfg raw_header required key_set =
     (case extract_token raw_header of
        Inl k \<Rightarrow> Inl k
      | Inr token \<Rightarrow>
          (case verify lib cfg token key_set of
             Inl k \<Rightarrow> Inl k
           | Inr claims \<Rightarrow>
               (case check claims required of
                  Inl k \<Rightarrow> Inl k
                | Inr _ \<Rightarrow> Inr claims)))"


section \<open>The HTTP application of \<^verbatim>\<open>api.py\<close>\<close>

subsection \<open>JSON values, exceptions, responses\<close>

text \<open>
  A JSON value as Python holds it after parsing; \<open>JNull\<close> is Python's \<^verbatim>\<open>None\<close>.
  An object is its list of key and value pairs, read with \<open>map_of\<close>.
\<close>

datatype json =
    JNull | JBool bool | JNum int | JStr string
  | JArr "json list" | JObj "(string \<times> json) list"

text \<open>What \<^verbatim>\<open>abort\<close> raises: werkzeug's \<^verbatim>\<open>HTTPException\<close> with its status code and description.\<close>

record http_error =
  code :: nat
  description :: string

text \<open>The exceptions a handler can raise; each one is a subclass of \<^verbatim>\<open>Exception\<close>.\<close>

datatype exn =
    HTTPException http_error
  | KeyError string
  | TypeError
  | AttributeError
  | MultipleResultsFound
  | ModelError string

text \<open>
  What the client receives: the body and status a view or an error handler returned,
  the framework's own page for an HTTP error no handler is registered for, or the
  framework's answer to an exception that is not an HTTP error (status 500).
\<close>

datatype response =
    Response json nat
  | DefaultErrorPage nat
  | InternalServerError

subsection \<open>The drinks table and the collaborators of the handlers\<close>

text \<open>
  A row of the drinks table. A \<^verbatim>\<open>Drink\<close> object has no id until it is inserted. The
  title holds whatever JSON value the request gave; the recipe column holds a string.
\<close>

record drink =
  drink_id :: "nat option"
  title :: json
  recipe :: string

type_synonym db = "drink list"

text \<open>
  The methods of the \<^verbatim>\<open>Drink\<close> class (\<^verbatim>\<open>database/models.py\<close>) and the library
  functions the handlers call, taken as parameters. A method that raises returns
  \<open>Inl\<close>; \<^verbatim>\<open>insert\<close> returns the object with its id.
\<close>

record models =
  drink_short :: "drink \<Rightarrow> exn + json"
  drink_long :: "drink \<Rightarrow> exn + json"
  drink_insert :: "drink \<Rightarrow> db \<Rightarrow> exn + (drink \<times> db)"
  drink_update :: "drink \<Rightarrow> db \<Rightarrow> exn + db"
  drink_delete :: "drink \<Rightarrow> db \<Rightarrow> exn + db"
  json_dumps :: "json \<Rightarrow> string"
  default_description :: "nat \<Rightarrow> string"

text \<open>\<^verbatim>\<open>Drink.query.order_by(Drink.id).all()\<close>\<close>

definition query_all_by_id :: "db \<Rightarrow> drink list" where
  "query_all_by_id d = sort_key drink_id d"

text \<open>\<^verbatim>\<open>Drink.query.get(id)\<close>: the row with that primary key, if any.\<close>

definition query_get :: "db \<Rightarrow> nat \<Rightarrow> drink option" where
  "query_get d i = find (\<lambda>r. drink_id r = Some i) d"

text \<open>\<^verbatim>\<open>Drink.query.filter(Drink.id == i).one_or_none()\<close>\<close>

definition query_one_or_none :: "db \<Rightarrow> nat option \<Rightarrow> exn + drink option" where
  "query_one_or_none d i =
     (case filter (\<lambda>r. drink_id r = i) d of
        [] \<Rightarrow> Inr None
      | [r] \<Rightarrow> Inr (Some r)
      | _ \<Rightarrow> Inl MultipleResultsFound)"

text \<open>\<^verbatim>\<open>abort(status)\<close> raises the HTTP error of that status, with the framework's description.\<close>

definition abort :: "models \<Rightarrow> nat \<Rightarrow> exn + 'a" where
  "abort m status =
     Inl (HTTPException \<lparr>code = status, description = default_description m status\<rparr>)"

text \<open>\<^verbatim>\<open>body[key]\<close>: only a dict can be subscripted with a string.\<close>

fun subscript :: "json \<Rightarrow> string \<Rightarrow> exn + json" where
  "subscript (JObj kvs) key =
     (case map_of kvs key of None \<Rightarrow> Inl (KeyError key) | Some v \<Rightarrow> Inr v)"
| "subscript _ key = Inl TypeError"

text \<open>\<^verbatim>\<open>body.get(key, None)\<close>: only a dict has the method.\<close>

fun dict_get :: "json \<Rightarrow> string \<Rightarrow> exn + json" where
  "dict_get (JObj kvs) key =
     (case map_of kvs key of None \<Rightarrow> Inr JNull | Some v \<Rightarrow> Inr v)"
| "dict_get _ key = Inl AttributeError"

text \<open>
  \<^verbatim>\<open>list(x)\<close>: a list is copied, a string gives its characters, a dict its keys;
  a number, a boolean and \<^verbatim>\<open>None\<close> are not iterable.
\<close>

fun py_list :: "json \<Rightarrow> exn + json" where
  "py_list (JArr xs) = Inr (JArr xs)"
| "py_list (JStr s) = Inr (JArr (map (\<lambda>c. JStr [c]) s))"
| "py_list (JObj kvs) = Inr (JArr (map (\<lambda>kv. JStr (fst kv)) kvs))"
| "py_list _ = Inl TypeError"

text \<open>A list comprehension \<^verbatim>\<open>[f(item) for item in data]\<close>: the first exception ends it.\<close>

fun comprehension :: "('a \<Rightarrow> exn + 'b) \<Rightarrow> 'a list \<Rightarrow> exn + 'b list" where
  "comprehension f [] = Inr []"
| "comprehension f (x # xs) =
     (case f x of
        Inl e \<Rightarrow> Inl e
      | Inr y \<Rightarrow> (case comprehension f xs of Inl e \<Rightarrow> Inl e | Inr ys \<Rightarrow> Inr (y # ys)))"

text \<open>
  \<^verbatim>\<open>try: ... except Exception: abort(status)\<close>: every exception of the block, an HTTP
  error included, is replaced by the HTTP error of \<open>status\<close>. What the block wrote to
  the table before it raised stays written.
\<close>

definition except_Exception_abort ::
  "models \<Rightarrow> nat \<Rightarrow> (exn + 'a) \<times> db \<Rightarrow> (exn + 'a) \<times> db"
where
  "except_Exception_abort m status r =
     (case fst r of Inl e \<Rightarrow> (abort m status, snd r) | Inr v \<Rightarrow> (Inr v, snd r))"

record request =
  authorization :: "string option"
  json_body :: json

subsection \<open>The decorator \<^verbatim>\<open>requires_auth\<close>\<close>

text \<open>
  What the application is configured with on the authorization side: the token
  library, the expected issuer and audience with the clock, the signing key set, and
  the message each rejection kind carries.
\<close>

record 'key auth_env =
  token_lib :: "'key jose"
  config :: verifier_config
  signing_keys :: "string \<rightharpoonup> 'key"
  message :: "RejectionKind \<Rightarrow> string"

text \<open>
  Modelled from the spec: the decorator \<^verbatim>\<open>requires_auth(permission)\<close> of
  \<^verbatim>\<open>auth/auth.py\<close> (sections 4.4, 6 and 9). It runs the gate on the request's
  \<^verbatim>\<open>Authorization\<close> header; a rejection is raised as the HTTP error of its status
  with its message as description, and on success the wrapped view is called with the
  claim set as its first argument.
\<close>

definition requires_auth ::
  "'key auth_env \<Rightarrow> string \<Rightarrow> (claim_set \<Rightarrow> request \<Rightarrow> db \<Rightarrow> (exn + json) \<times> db)
     \<Rightarrow> request \<Rightarrow> db \<Rightarrow> (exn + json) \<times> db"
where
  "requires_auth env permission f req d =
     (case authorize (token_lib env) (config env) (authorization req) permission
             (signing_keys env) of
        Inl k \<Rightarrow>
          (Inl (HTTPException \<lparr>code = http_status k, description = message env k\<rparr>), d)
      | Inr payload \<Rightarrow> f payload req d)"

subsection \<open>The views\<close>

text \<open>\<^verbatim>\<open>get_drinks\<close>, lines 43 to 51.\<close>

definition get_drinks :: "models \<Rightarrow> request \<Rightarrow> db \<Rightarrow> (exn + json) \<times> db" where
  "get_drinks m req d =
     (let data = query_all_by_id d in
      case comprehension (drink_short m) data of
        Inl e \<Rightarrow> (Inl e, d)
      | Inr drinks \<Rightarrow>
          (Inr (JObj [(''success'', JBool True), (''drinks'', JArr drinks)]), d))"

text \<open>\<^verbatim>\<open>get_drinks_detail\<close>, lines 64 to 71.\<close>

definition get_drinks_detail ::
  "models \<Rightarrow> claim_set \<Rightarrow> request \<Rightarrow> db \<Rightarrow> (exn + json) \<times> db"
where
  "get_drinks_detail m jwt req d =
     (let data = query_all_by_id d in
      case comprehension (drink_long m) data of
        Inl e \<Rightarrow> (Inl e, d)
      | Inr drinks \<Rightarrow>
          (Inr (JObj [(''success'', JBool True), (''drinks'', JArr drinks)]), d))"

text \<open>The \<^verbatim>\<open>try\<close> block of \<^verbatim>\<open>create_drink\<close>, lines 92 to 103.\<close>

definition create_drink_try ::
  "models \<Rightarrow> json \<Rightarrow> string \<Rightarrow> db \<Rightarrow> (exn + json) \<times> db"
where
  "create_drink_try m new_title new_recipe d =
     (case drink_insert m \<lparr>drink_id = None, title = new_title, recipe = new_recipe\<rparr> d of
        Inl e \<Rightarrow> (Inl e, d)
      | Inr (drink, d') \<Rightarrow>
          (case query_one_or_none d' (drink_id drink) of
             Inl e \<Rightarrow> (Inl e, d')
           | Inr None \<Rightarrow> (Inl AttributeError, d')
           | Inr (Some found) \<Rightarrow>
               (case drink_long m found of
                  Inl e \<Rightarrow> (Inl e, d')
                | Inr l \<Rightarrow>
                    (Inr (JObj [(''success'', JBool True), (''drinks'', JArr [l])]), d'))))"

text \<open>
  \<^verbatim>\<open>create_drink\<close>, lines 85 to 107: the two subscripts come before the
  \<^verbatim>\<open>try\<close> block.
\<close>

definition create_drink ::
  "models \<Rightarrow> claim_set \<Rightarrow> request \<Rightarrow> db \<Rightarrow> (exn + json) \<times> db"
where
  "create_drink m jwt req d =
     (let body = json_body req in
      case subscript body ''title'' of
        Inl e \<Rightarrow> (Inl e, d)
      | Inr new_title \<Rightarrow>
          (case subscript body ''recipe'' of
             Inl e \<Rightarrow> (Inl e, d)
           | Inr r \<Rightarrow>
               (let new_recipe = json_dumps m r in
                except_Exception_abort m 422 (create_drink_try m new_title new_recipe d))))"

text \<open>
  The \<^verbatim>\<open>try\<close> block of \<^verbatim>\<open>edit_drink\<close>, lines 125 to 135; its value is the
  drink object as the block leaves it.
\<close>

definition edit_drink_try ::
  "models \<Rightarrow> nat \<Rightarrow> request \<Rightarrow> db \<Rightarrow> (exn + drink) \<times> db"
where
  "edit_drink_try m i req d =
     (case query_get d i of
        None \<Rightarrow> (abort m 404, d)
      | Some drink \<Rightarrow>
          (let body = json_body req in
           case dict_get body ''title'' of
             Inl e \<Rightarrow> (Inl e, d)
           | Inr new_title \<Rightarrow>
               (case dict_get body ''recipe'' of
                  Inl e \<Rightarrow> (Inl e, d)
                | Inr new_recipe \<Rightarrow>
                    (let drink1 = (if new_title \<noteq> JNull then drink\<lparr>title := new_title\<rparr>
                                   else drink) in
                     case (if new_recipe \<noteq> JNull
                           then (case py_list new_recipe of
                                   Inl e \<Rightarrow> Inl e
                                 | Inr l \<Rightarrow> Inr (drink1\<lparr>recipe := json_dumps m l\<rparr>))
                           else Inr drink1) of
                       Inl e \<Rightarrow> (Inl e, d)
                     | Inr drink2 \<Rightarrow>
                         (case drink_update m drink2 d of
                            Inl e \<Rightarrow> (Inl e, d)
                          | Inr d' \<Rightarrow> (Inr drink2, d'))))))"

text \<open>\<^verbatim>\<open>edit_drink\<close>, lines 123 to 142: the response is built after the \<^verbatim>\<open>try\<close> statement.\<close>

definition edit_drink ::
  "models \<Rightarrow> claim_set \<Rightarrow> nat \<Rightarrow> request \<Rightarrow> db \<Rightarrow> (exn + json) \<times> db"
where
  "edit_drink m jwt i req d =
     (case except_Exception_abort m 422 (edit_drink_try m i req d) of
        (Inl e, d') \<Rightarrow> (Inl e, d')
      | (Inr drink, d') \<Rightarrow>
          (case drink_long m drink of
             Inl e \<Rightarrow> (Inl e, d')
           | Inr l \<Rightarrow>
               (Inr (JObj [(''success'', JBool True), (''drinks'', JArr [l])]), d')))"

text \<open>The \<^verbatim>\<open>try\<close> block of \<^verbatim>\<open>delete_drink\<close>, lines 159 to 169.\<close>

definition delete_drink_try :: "models \<Rightarrow> nat \<Rightarrow> db \<Rightarrow> (exn + json) \<times> db" where
  "delete_drink_try m i d =
     (case query_get d i of
        None \<Rightarrow> (abort m 404, d)
      | Some drink \<Rightarrow>
          (case drink_delete m drink d of
             Inl e \<Rightarrow> (Inl e, d)
           | Inr d' \<Rightarrow>
               (Inr (JObj [(''success'', JBool True),
                           (''delete'', (case drink_id drink of
                                           None \<Rightarrow> JNull
                                         | Some n \<Rightarrow> JNum (int n)))]), d')))"

text \<open>\<^verbatim>\<open>delete_drink\<close>, lines 157 to 172.\<close>

definition delete_drink ::
  "models \<Rightarrow> claim_set \<Rightarrow> nat \<Rightarrow> request \<Rightarrow> db \<Rightarrow> (exn + json) \<times> db"
where
  "delete_drink m jwt i req d = except_Exception_abort m 422 (delete_drink_try m i d)"

subsection \<open>The error handlers\<close>

text \<open>Each handler returns the JSON body and the status, lines 179 to 242.\<close>

definition unprocessable :: "http_error \<Rightarrow> json \<times> nat" where
  "unprocessable error =
     (JObj [(''success'', JBool False), (''error'', JNum 422),
            (''message'', JStr ''unprocessable'')], 422)"

definition not_found :: "http_error \<Rightarrow> json \<times> nat" where
  "not_found error =
     (JObj [(''success'', JBool False), (''error'', JNum 404),
            (''message'', JStr ''resource not found'')], 404)"

definition bad_request :: "http_error \<Rightarrow> json \<times> nat" where
  "bad_request error =
     (JObj [(''success'', JBool False), (''error'', JNum 400),
            (''message'', JStr ''bad request'')], 400)"

definition not_allowed :: "http_error \<Rightarrow> json \<times> nat" where
  "not_allowed error =
     (JObj [(''success'', JBool False), (''error'', JNum 405),
            (''message'', JStr ''method not allowed'')], 405)"

definition user_unauthorized :: "http_error \<Rightarrow> json \<times> nat" where
  "user_unauthorized error =
     (JObj [(''success'', JBool False), (''error'', JNum 401),
            (''message'', JStr (description error))], 401)"

definition resource_unauthorized :: "http_error \<Rightarrow> json \<times> nat" where
  "resource_unauthorized error =
     (JObj [(''success'', JBool False), (''error'', JNum 403),
            (''message'', JStr (description error))], 403)"

text \<open>The registry the \<^verbatim>\<open>@app.errorhandler\<close> decorators fill.\<close>

definition errorhandler :: "nat \<Rightarrow> (http_error \<Rightarrow> json \<times> nat) option" where
  "errorhandler status =
     (if status = 422 then Some unprocessable
      else if status = 404 then Some not_found
      else if status = 400 then Some bad_request
      else if status = 405 then Some not_allowed
      else if status = 401 then Some user_unauthorized
      else if status = 403 then Some resource_unauthorized
      else None)"

subsection \<open>Routes and dispatch\<close>

datatype endpoint =
    GET_drinks
  | GET_drinks_detail
  | POST_drinks
  | PATCH_drinks nat
  | DELETE_drinks nat

text \<open>
  The view functions as the \<^verbatim>\<open>@app.route\<close> and \<^verbatim>\<open>@requires_auth\<close> decorators
  register them, lines 43, 62 to 63, 83 to 84, 121 to 122 and 155 to 156.
\<close>

definition view ::
  "'key auth_env \<Rightarrow> models \<Rightarrow> endpoint \<Rightarrow> request \<Rightarrow> db \<Rightarrow> (exn + json) \<times> db"
where
  "view env m ep =
     (case ep of
        GET_drinks \<Rightarrow> get_drinks m
      | GET_drinks_detail \<Rightarrow> requires_auth env ''get:drinks-detail'' (get_drinks_detail m)
      | POST_drinks \<Rightarrow> requires_auth env ''post:drinks'' (create_drink m)
      | PATCH_drinks i \<Rightarrow> requires_auth env ''patch:drinks'' (\<lambda>jwt. edit_drink m jwt i)
      | DELETE_drinks i \<Rightarrow> requires_auth env ''delete:drinks'' (\<lambda>jwt. delete_drink m jwt i))"

text \<open>
  What the framework makes of a view's outcome: a returned body is sent with status
  200, an HTTP error goes to its registered handler, any other exception is a 500.
\<close>

definition respond :: "exn + json \<Rightarrow> response" where
  "respond r =
     (case r of
        Inr body \<Rightarrow> Response body 200
      | Inl (HTTPException e) \<Rightarrow>
          (case errorhandler (code e) of
             Some handler \<Rightarrow> Response (fst (handler e)) (snd (handler e))
           | None \<Rightarrow> DefaultErrorPage (code e))
      | Inl _ \<Rightarrow> InternalServerError)"

definition serve ::
  "'key auth_env \<Rightarrow> models \<Rightarrow> endpoint \<Rightarrow> request \<Rightarrow> db \<Rightarrow> response \<times> db"
where
  "serve env m ep req d = (respond (fst (view env m ep req d)), snd (view env m ep req d))"

abbreviation gate :: "'key auth_env \<Rightarrow> request \<Rightarrow> string \<Rightarrow> RejectionKind + claim_set" where
  "gate env req permission \<equiv>
     authorize (token_lib env) (config env) (authorization req) permission (signing_keys env)"

abbreviation rejection :: "'key auth_env \<Rightarrow> RejectionKind \<Rightarrow> exn + json" where
  "rejection env k \<equiv>
     Inl (HTTPException \<lparr>code = http_status k, description = message env k\<rparr>)"

abbreviation envelope :: "nat \<Rightarrow> string \<Rightarrow> json" where
  "envelope status msg \<equiv>
     JObj [(''success'', JBool False), (''error'', JNum (int status)), (''message'', JStr msg)]"

section \<open>Concrete collaborators for evaluation\<close>

text \<open>The claims of a manager's token: all four permissions.\<close>

definition manager_claims :: claim_set where
  "manager_claims =
     \<lparr>claim_iss = ''issuer'', claim_aud = [''drinks''], claim_exp = 2000,
      claim_permissions = Some [''get:drinks-detail'', ''post:drinks'',
                                ''patch:drinks'', ''delete:drinks'']\<rparr>"

text \<open>
  A token library over three header segments and three payload segments, with
  numbers as keys: the signature \<^verbatim>\<open>sig\<close> is the one key 7 accepts.
\<close>

definition example_lib :: "nat jose" where
  "example_lib =
     \<lparr>decode_header = (\<lambda>s.
          if s = ''rs'' then Some \<lparr>alg = ''RS256'', kid = ''key1''\<rparr>
          else if s = ''unsigned'' then Some \<lparr>alg = ''none'', kid = ''key1''\<rparr>
          else if s = ''hs'' then Some \<lparr>alg = ''HS256'', kid = ''key1''\<rparr>
          else None),
      decode_payload = (\<lambda>s.
          if s = ''manager'' then Some manager_claims
          else if s = ''barista'' then
            Some (manager_claims\<lparr>claim_permissions := Some [''get:drinks-detail'']\<rparr>)
          else if s = ''guest'' then Some (manager_claims\<lparr>claim_permissions := None\<rparr>)
          else None),
      signature_ok = (\<lambda>key a signing_input s. key = 7 \<and> s = ''sig'')\<rparr>"

definition example_env :: "nat auth_env" where
  "example_env =
     \<lparr>token_lib = example_lib,
      config = \<lparr>expected_issuer = ''issuer'', expected_audience = ''drinks'', now = 1000\<rparr>,
      signing_keys = [''key1'' \<mapsto> 7],
      message = (\<lambda>k. ''rejected'')\<rparr>"

text \<open>
  A \<^verbatim>\<open>Drink\<close> class over the list of rows: \<^verbatim>\<open>insert\<close> gives the next free id,
  \<^verbatim>\<open>update\<close> and \<^verbatim>\<open>delete\<close> act on the row of the object's id.
\<close>

definition example_models :: models where
  "example_models =
     \<lparr>drink_short = (\<lambda>r. Inr (JObj [(''title'', title r)])),
      drink_long = (\<lambda>r. Inr (JObj [(''title'', title r), (''recipe'', JStr (recipe r))])),
      drink_insert = (\<lambda>r d.
          let r' = r\<lparr>drink_id := Some (Suc (length d))\<rparr> in Inr (r', d @ [r'])),
      drink_update = (\<lambda>r d. Inr (map (\<lambda>x. if drink_id x = drink_id r then r else x) d)),
      drink_delete = (\<lambda>r d. Inr (filter (\<lambda>x. drink_id x \<noteq> drink_id r) d)),
      json_dumps = (\<lambda>j. case j of JStr t \<Rightarrow> t | _ \<Rightarrow> ''[]''),
      default_description = (\<lambda>status. ''error'')\<rparr>"

definition manager_request :: "json \<Rightarrow> request" where
  "manager_request body =
     \<lparr>authorization = Some ''Bearer rs.manager.sig'', json_body = body\<rparr>"

definition mocha_request :: request where
  "mocha_request =
     manager_request (JObj [(''title'', JStr ''mocha''), (''recipe'', JArr [])])"

definition latte :: drink where
  "latte = \<lparr>drink_id = Some 1, title = JStr ''latte'', recipe = ''[]''\<rparr>"

definition mocha :: drink where
  "mocha = \<lparr>drink_id = Some 2, title = JStr ''mocha'', recipe = ''[]''\<rparr>"

section \<open>Properties\<close>

subsection \<open>Auxiliary facts\<close>

lemma split_on_nonempty: "split_on c s \<noteq> []"
  by (induction s) (auto split: list.splits)

lemma split_on_absent: "c \<notin> set s \<Longrightarrow> split_on c s = [s]"
  by (induction s) auto

lemma manager_token: "extract_token (Some ''Bearer rs.manager.sig'') = Inr ''rs.manager.sig''"
  by (simp add: extract_token_def)

lemma manager_segments: "split_on CHR ''.'' ''rs.manager.sig'' = [''rs'', ''manager'', ''sig'']"
  by simp

lemma unsigned_segments:
  "split_on CHR ''.'' ''unsigned.manager.sig'' = [''unsigned'', ''manager'', ''sig'']"
  by simp

lemma example_env_sel:
  "token_lib example_env = example_lib"
  "config example_env =
     \<lparr>expected_issuer = ''issuer'', expected_audience = ''drinks'', now = 1000\<rparr>"
  "signing_keys example_env = [''key1'' \<mapsto> 7]"
  by (simp_all add: example_env_def)

lemma example_lib_rs:
  "decode_header example_lib ''rs'' = Some \<lparr>alg = ''RS256'', kid = ''key1''\<rparr>"
  by (simp add: example_lib_def)

lemma example_lib_unsigned:
  "decode_header example_lib ''unsigned'' = Some \<lparr>alg = ''none'', kid = ''key1''\<rparr>"
  by (simp add: example_lib_def)

lemma example_lib_manager: "decode_payload example_lib ''manager'' = Some manager_claims"
  by (simp add: example_lib_def)

lemma example_lib_sig: "signature_ok example_lib 7 a i ''sig''"
  by (simp add: example_lib_def)

lemma manager_verify:
  "verify example_lib
      \<lparr>expected_issuer = ''issuer'', expected_audience = ''drinks'', now = 1000\<rparr>
      ''rs.manager.sig'' [''key1'' \<mapsto> 7] = Inr manager_claims"
  unfolding verify_def manager_segments
  by (simp add: example_lib_rs example_lib_manager example_lib_sig ALGORITHM_def)
     (simp add: manager_claims_def)

lemma manager_gate:
  "gate example_env (manager_request body) p =
     (case check manager_claims p of Inl k \<Rightarrow> Inl k | Inr u \<Rightarrow> Inr manager_claims)"
  unfolding authorize_def example_env_sel
  by (simp add: manager_request_def manager_token manager_verify)

lemma manager_gate_ok:
  "gate example_env (manager_request body) ''get:drinks-detail'' = Inr manager_claims"
  "gate example_env (manager_request body) ''post:drinks'' = Inr manager_claims"
  "gate example_env (manager_request body) ''patch:drinks'' = Inr manager_claims"
  "gate example_env (manager_request body) ''delete:drinks'' = Inr manager_claims"
  unfolding manager_gate by (simp_all add: check_def manager_claims_def)

lemma no_header_gate:
  "gate env \<lparr>authorization = None, json_body = b\<rparr> p = Inl MissingHeader"
  by (simp add: authorize_def extract_token_def)

lemma respond_abort_422:
  "respond (abort m 422) = Response (envelope 422 ''unprocessable'') 422"
  by (simp add: respond_def abort_def errorhandler_def unprocessable_def)

lemma no_fifth_drink: "query_get [latte] 5 = None"
  by (simp add: query_get_def latte_def)

lemma title_only_body:
  "json_body (manager_request (JObj [(''title'', JStr ''mocha'')]))
     = JObj [(''title'', JStr ''mocha'')]"
  by (simp add: manager_request_def)

lemma view_get_drinks_store: "snd (view env m GET_drinks req d) = d"
  by (simp add: view_def get_drinks_def Let_def split: sum.splits)

lemma view_get_drinks_detail_store: "snd (view env m GET_drinks_detail req d) = d"
  by (simp add: view_def requires_auth_def get_drinks_detail_def Let_def split: sum.splits)

lemma mocha_try:
  "create_drink_try example_models (JStr ''mocha'') ''[]'' [latte]
     = (Inr (JObj [(''success'', JBool True),
                   (''drinks'', JArr [JObj [(''title'', JStr ''mocha''),
                                            (''recipe'', JStr ''[]'')]])]),
        [latte, mocha])"
  by (simp add: create_drink_try_def example_models_def query_one_or_none_def latte_def
      mocha_def Let_def)

lemma mocha_created:
  "create_drink example_models jwt mocha_request [latte]
     = (Inr (JObj [(''success'', JBool True),
                   (''drinks'', JArr [JObj [(''title'', JStr ''mocha''),
                                            (''recipe'', JStr ''[]'')]])]),
        [latte, mocha])"
proof -
  have "json_dumps example_models (JArr []) = ''[]''"
    by (simp add: example_models_def)
  then show ?thesis
    by (simp add: create_drink_def mocha_request_def manager_request_def mocha_try
        except_Exception_abort_def)
qed

lemma mocha_served:
  "snd (serve example_env example_models POST_drinks mocha_request [latte]) = [latte, mocha]"
  by (simp add: serve_def view_def requires_auth_def mocha_request_def manager_gate_ok
      mocha_created [unfolded mocha_request_def])

lemma garbage_segments:
  "split_on CHR ''.'' ''unsigned.garbage.sig'' = [''unsigned'', ''garbage'', ''sig'']"
  by simp

lemma hs_segments:
  "split_on CHR ''.'' ''hs.manager.sig'' = [''hs'', ''manager'', ''sig'']"
  by simp

lemma example_lib_hs:
  "decode_header example_lib ''hs'' = Some \<lparr>alg = ''HS256'', kid = ''key1''\<rparr>"
  by (simp add: example_lib_def)

lemma respond_registered:
  "respond (Inl (HTTPException \<lparr>code = 400, description = dsc\<rparr>))
     = Response (envelope 400 ''bad request'') 400"
  "respond (Inl (HTTPException \<lparr>code = 404, description = dsc\<rparr>))
     = Response (envelope 404 ''resource not found'') 404"
  "respond (Inl (HTTPException \<lparr>code = 405, description = dsc\<rparr>))
     = Response (envelope 405 ''method not allowed'') 405"
  "respond (Inl (HTTPException \<lparr>code = 422, description = dsc\<rparr>))
     = Response (envelope 422 ''unprocessable'') 422"
  "respond (Inl (HTTPException \<lparr>code = 401, description = dsc\<rparr>))
     = Response (envelope 401 dsc) 401"
  "respond (Inl (HTTPException \<lparr>code = 403, description = dsc\<rparr>))
     = Response (envelope 403 dsc) 403"
  by (simp_all add: respond_def errorhandler_def user_unauthorized_def
      resource_unauthorized_def unprocessable_def not_found_def bad_request_def
      not_allowed_def)

lemma respond_rejection:
  "respond (rejection env k) = Response (envelope (http_status k) (message env k)) (http_status k)"
  by (cases k) (simp_all add: respond_registered)

lemma respond_422:
  "code e = 422 \<Longrightarrow> respond (Inl (HTTPException e)) = Response (envelope 422 ''unprocessable'') 422"
  by (simp add: respond_def errorhandler_def unprocessable_def)

lemma respond_Response:
  assumes "respond r = Response body status" and "status \<noteq> 200"
  shows "\<exists>e. r = Inl (HTTPException e)"
proof (cases r)
  case (Inl x)
  with assms show ?thesis by (cases x) (simp_all add: respond_def)
next
  case (Inr j)
  with assms show ?thesis by (simp add: respond_def)
qed

lemma comprehension_Inl:
  "comprehension f xs = Inl e \<Longrightarrow> \<exists>x. f x = Inl e"
  by (induction xs) (auto split: sum.splits)

lemma get_drinks_http:
  assumes "\<forall>r e. drink_short m r \<noteq> Inl (HTTPException e)"
  shows "fst (get_drinks m req d) \<noteq> Inl (HTTPException e)"
proof (cases "comprehension (drink_short m) (query_all_by_id d)")
  case (Inl x)
  then obtain r where "drink_short m r = Inl x" using comprehension_Inl by blast
  with assms have "x \<noteq> HTTPException e" by metis
  with Inl show ?thesis by (simp add: get_drinks_def)
next
  case (Inr ys)
  then show ?thesis by (simp add: get_drinks_def)
qed

lemma get_drinks_detail_http:
  assumes "\<forall>r e. drink_long m r \<noteq> Inl (HTTPException e)"
  shows "fst (get_drinks_detail m jwt req d) \<noteq> Inl (HTTPException e)"
proof (cases "comprehension (drink_long m) (query_all_by_id d)")
  case (Inl x)
  then obtain r where "drink_long m r = Inl x" using comprehension_Inl by blast
  with assms have "x \<noteq> HTTPException e" by metis
  with Inl show ?thesis by (simp add: get_drinks_detail_def)
next
  case (Inr ys)
  then show ?thesis by (simp add: get_drinks_detail_def)
qed

lemma except_http:
  "fst (except_Exception_abort m 422 r) = Inl (HTTPException e) \<Longrightarrow> code e = 422"
  by (cases "fst r") (auto simp: except_Exception_abort_def abort_def)

lemma subscript_http: "subscript b key \<noteq> Inl (HTTPException e)"
  by (cases b) (auto split: option.splits)

lemma create_drink_http:
  "fst (create_drink m jwt req d) = Inl (HTTPException e) \<Longrightarrow> code e = 422"
  by (auto simp: create_drink_def Let_def subscript_http split: sum.splits dest: except_http)

lemma edit_drink_http:
  assumes "\<forall>r e. drink_long m r \<noteq> Inl (HTTPException e)"
    and "fst (edit_drink m jwt i req d) = Inl (HTTPException e)"
  shows "code e = 422"
proof (cases "fst (except_Exception_abort m 422 (edit_drink_try m i req d))")
  case (Inl x)
  with assms(2) have "fst (except_Exception_abort m 422 (edit_drink_try m i req d))
      = Inl (HTTPException e)"
    by (simp add: edit_drink_def split: prod.splits)
  then show ?thesis by (rule except_http)
next
  case (Inr drink)
  with assms(2) have "drink_long m drink = Inl (HTTPException e)"
    by (auto simp: edit_drink_def split: prod.splits sum.splits)
  with assms(1) show ?thesis by simp
qed

lemma delete_drink_http:
  "fst (delete_drink m jwt i req d) = Inl (HTTPException e) \<Longrightarrow> code e = 422"
  by (simp add: delete_drink_def except_http)

lemma requires_auth_http:
  assumes "\<And>claims. fst (f claims req d) = Inl (HTTPException e) \<Longrightarrow> code e = 422"
    and "fst (requires_auth env p f req d) = Inl (HTTPException e)"
  shows "code e = 422 \<or> (\<exists>k. e = \<lparr>code = http_status k, description = message env k\<rparr>)"
  using assms by (auto simp: requires_auth_def split: sum.splits)

lemma view_http:
  assumes "\<forall>r e. drink_short m r \<noteq> Inl (HTTPException e)"
    and "\<forall>r e. drink_long m r \<noteq> Inl (HTTPException e)"
    and "fst (view env m ep req d) = Inl (HTTPException e)"
  shows "code e = 422 \<or> (\<exists>k. e = \<lparr>code = http_status k, description = message env k\<rparr>)"
proof (cases ep)
  case GET_drinks
  with assms(1,3) show ?thesis by (simp add: view_def get_drinks_http)
next
  case GET_drinks_detail
  with assms(3) have "fst (requires_auth env ''get:drinks-detail'' (get_drinks_detail m) req d)
      = Inl (HTTPException e)"
    by (simp add: view_def)
  then show ?thesis
    using assms(2) by (intro requires_auth_http) (simp_all add: get_drinks_detail_http)
next
  case POST_drinks
  with assms(3) have "fst (requires_auth env ''post:drinks'' (create_drink m) req d)
      = Inl (HTTPException e)"
    by (simp add: view_def)
  then show ?thesis
    by (rule requires_auth_http [rotated]) (rule create_drink_http)
next
  case (PATCH_drinks i)
  with assms(3) have "fst (requires_auth env ''patch:drinks'' (\<lambda>jwt. edit_drink m jwt i) req d)
      = Inl (HTTPException e)"
    by (simp add: view_def)
  then show ?thesis
    by (rule requires_auth_http [rotated]) (rule edit_drink_http [OF assms(2)])
next
  case (DELETE_drinks i)
  with assms(3) have "fst (requires_auth env ''delete:drinks'' (\<lambda>jwt. delete_drink m jwt i) req d)
      = Inl (HTTPException e)"
    by (simp add: view_def)
  then show ?thesis
    by (rule requires_auth_http [rotated]) (rule delete_drink_http)
qed

lemma example_short: "\<forall>r e. drink_short example_models r \<noteq> Inl (HTTPException e)"
  by (simp add: example_models_def)

lemma example_long: "\<forall>r e. drink_long example_models r \<noteq> Inl (HTTPException e)"
  by (simp add: example_models_def)

lemma example_message: "\<forall>k. message example_env k \<noteq> []"
  by (simp add: example_env_def)

lemma authorize_None: "authorize lib cfg None p ks = Inl MissingHeader"
  by (simp add: authorize_def extract_token_def)

lemma no_header_served:
  "fst (serve example_env example_models GET_drinks_detail
          \<lparr>authorization = None, json_body = JNull\<rparr> [latte])
     = Response (envelope 401 ''rejected'') 401"
proof -
  have "message example_env MissingHeader = ''rejected''"
    by (simp add: example_env_def)
  then show ?thesis
    by (simp add: serve_def view_def requires_auth_def authorize_None respond_registered)
qed

subsection \<open>The status of a rejection\<close>

text \<open>
  Claim C1. A rejection of the authorization layer has status 401 exactly when its
  kind is one of the ten authentication kinds and 403 exactly when it is one of the
  two permission kinds; it has no other status. Raised as an HTTP error, it is
  rendered by the registered handler of that status, with that status.
\<close>

theorem http_status_split:
  "(http_status k = 401) =
     (k \<in> {MissingHeader, MalformedHeader, UnsupportedScheme, MalformedToken,
            UnsupportedAlgorithm, UnknownSigningKey, InvalidSignature, TokenExpired,
            IssuerMismatch, AudienceMismatch})
   \<and> (http_status k = 403) = (k \<in> {PermissionsClaimMissing, PermissionDenied})
   \<and> (http_status k = 401 \<or> http_status k = 403)
   \<and> respond (rejection env k) =
       Response (envelope (http_status k) (message env k)) (http_status k)"
  by (cases k) (simp_all add: respond_def errorhandler_def user_unauthorized_def
      resource_unauthorized_def)

subsection \<open>Which routes are guarded\<close>

text \<open>
  Claim C2. \<^verbatim>\<open>GET /drinks\<close> is answered without any authorization check: neither the
  \<^verbatim>\<open>Authorization\<close> header nor the authorization configuration has any effect on
  it. Each of the other four routes first runs the gate with its one fixed permission:
  a rejection is raised and the table is left alone, and only on success does the
  view's body run.
\<close>

theorem routes_guarded:
  "view env m GET_drinks (req\<lparr>authorization := h\<rparr>) d = view env' m GET_drinks req d
   \<and> view env m GET_drinks_detail req d =
       (case gate env req ''get:drinks-detail'' of
          Inl k \<Rightarrow> (rejection env k, d)
        | Inr claims \<Rightarrow> get_drinks_detail m claims req d)
   \<and> view env m POST_drinks req d =
       (case gate env req ''post:drinks'' of
          Inl k \<Rightarrow> (rejection env k, d)
        | Inr claims \<Rightarrow> create_drink m claims req d)
   \<and> view env m (PATCH_drinks i) req d =
       (case gate env req ''patch:drinks'' of
          Inl k \<Rightarrow> (rejection env k, d)
        | Inr claims \<Rightarrow> edit_drink m claims i req d)
   \<and> view env m (DELETE_drinks i) req d =
       (case gate env req ''delete:drinks'' of
          Inl k \<Rightarrow> (rejection env k, d)
        | Inr claims \<Rightarrow> delete_drink m claims i req d)"
  by (simp add: view_def requires_auth_def get_drinks_def)

subsection \<open>The Credential Extractor\<close>

text \<open>
  Claim C3. An absent header gives \<open>MissingHeader\<close>; a header that is not exactly two
  space-separated parts gives \<open>MalformedHeader\<close>; two parts whose first is not the
  literal \<^verbatim>\<open>Bearer\<close> give \<open>UnsupportedScheme\<close>; otherwise the second part is
  returned as it stands.
\<close>

theorem extract_token_cases:
  "extract_token None = Inl MissingHeader
   \<and> (length (split_on CHR '' '' h) \<noteq> 2 \<longrightarrow> extract_token (Some h) = Inl MalformedHeader)
   \<and> (split_on CHR '' '' h = [scheme, token] \<and> scheme \<noteq> ''Bearer''
        \<longrightarrow> extract_token (Some h) = Inl UnsupportedScheme)
   \<and> (split_on CHR '' '' h = [''Bearer'', token] \<longrightarrow> extract_token (Some h) = Inr token)"
  by (simp add: extract_token_def Let_def)

theorem extract_token_cases_witness:
  "extract_token (Some ''Bearer'') = Inl MalformedHeader
   \<and> extract_token (Some ''Bearer a b'') = Inl MalformedHeader
   \<and> extract_token (Some ''Basic abc123'') = Inl UnsupportedScheme
   \<and> extract_token (Some ''bearer abc123'') = Inl UnsupportedScheme
   \<and> extract_token (Some ''Bearer abc123'') = Inr ''abc123''"
  using extract_token_cases [of "''Bearer''"]
    extract_token_cases [of "''Bearer a b''"]
    extract_token_cases [of "''Basic abc123''" "''Basic''" "''abc123''"]
    extract_token_cases [of "''bearer abc123''" "''bearer''" "''abc123''"]
    extract_token_cases [of "''Bearer abc123''" _ "''abc123''"]
  by simp

subsection \<open>The Permission Enforcer\<close>

text \<open>
  Claim C4. \<open>check\<close> fails with \<open>PermissionsClaimMissing\<close> exactly when the claim set
  has no permissions entry, fails with \<open>PermissionDenied\<close> exactly when there is an
  entry and the required string is not in it, and returns unit exactly when the
  required string is in it. Its only result is that value.
\<close>

theorem check_outcomes:
  "(check claims required = Inl PermissionsClaimMissing) = (claim_permissions claims = None)
   \<and> (check claims required = Inl PermissionDenied) =
       (\<exists>granted. claim_permissions claims = Some granted \<and> required \<notin> set granted)
   \<and> (check claims required = Inr ()) =
       (\<exists>granted. claim_permissions claims = Some granted \<and> required \<in> set granted)
   \<and> check (claims\<lparr>claim_permissions := Some [''a'', ''b'']\<rparr>) ''a'' = Inr ()
   \<and> check (claims\<lparr>claim_permissions := Some [''a'', ''b'']\<rparr>) ''c'' = Inl PermissionDenied"
  by (cases "claim_permissions claims") (simp_all add: check_def)

subsection \<open>The rendering of rejections\<close>

text \<open>
  Claim C5. Every rejection the client is sent is a JSON object with \<^verbatim>\<open>success\<close>
  false, the numeric status under \<^verbatim>\<open>error\<close> and a non-empty \<^verbatim>\<open>message\<close>,
  its status being one of the six registered ones. This holds for every request,
  given that the authorization layer's messages are non-empty and that the methods
  \<^verbatim>\<open>short\<close> and \<^verbatim>\<open>long\<close> of \<^verbatim>\<open>Drink\<close> raise no HTTP error. Each registered
  handler renders that object: with a fixed non-empty literal for 400, 404, 405 and
  422, with the error's description for 401 and 403.
\<close>

theorem rejections_rendered:
  assumes "\<forall>k. message env k \<noteq> []"
    and "\<forall>r e. drink_short m r \<noteq> Inl (HTTPException e)"
    and "\<forall>r e. drink_long m r \<noteq> Inl (HTTPException e)"
  shows "(\<forall>body status. fst (serve env m ep req d) = Response body status \<and> status \<noteq> 200
            \<longrightarrow> status \<in> {400, 404, 405, 422, 401, 403}
                \<and> (\<exists>text. text \<noteq> [] \<and> body = envelope status text))
       \<and> respond (Inl (HTTPException \<lparr>code = 400, description = dsc\<rparr>))
           = Response (envelope 400 ''bad request'') 400
       \<and> respond (Inl (HTTPException \<lparr>code = 404, description = dsc\<rparr>))
           = Response (envelope 404 ''resource not found'') 404
       \<and> respond (Inl (HTTPException \<lparr>code = 405, description = dsc\<rparr>))
           = Response (envelope 405 ''method not allowed'') 405
       \<and> respond (Inl (HTTPException \<lparr>code = 422, description = dsc\<rparr>))
           = Response (envelope 422 ''unprocessable'') 422
       \<and> respond (Inl (HTTPException \<lparr>code = 401, description = dsc\<rparr>))
           = Response (envelope 401 dsc) 401
       \<and> respond (Inl (HTTPException \<lparr>code = 403, description = dsc\<rparr>))
           = Response (envelope 403 dsc) 403"
proof -
  have main: "status \<in> {400, 404, 405, 422, 401, 403}
                \<and> (\<exists>text. text \<noteq> [] \<and> body = envelope status text)"
    if r: "fst (serve env m ep req d) = Response body status" and s: "status \<noteq> 200"
    for body status
  proof -
    from r have rr: "respond (fst (view env m ep req d)) = Response body status"
      by (simp add: serve_def)
    from respond_Response [OF rr s] obtain e
      where e: "fst (view env m ep req d) = Inl (HTTPException e)" ..
    from view_http [OF assms(2,3) e]
    show ?thesis
    proof
      assume "code e = 422"
      with rr e have "body = envelope 422 ''unprocessable'' \<and> status = 422"
        by (simp add: respond_422)
      then show ?thesis by simp
    next
      assume "\<exists>k. e = \<lparr>code = http_status k, description = message env k\<rparr>"
      then obtain k where k: "e = \<lparr>code = http_status k, description = message env k\<rparr>" ..
      from rr e have "respond (Inl (HTTPException e)) = Response body status"
        by simp
      then have "Response (envelope (http_status k) (message env k)) (http_status k)
          = Response body status"
        by (simp only: k respond_rejection)
      then have b: "body = envelope (http_status k) (message env k)"
        and st: "status = http_status k"
        by auto
      have "http_status k = 401 \<or> http_status k = 403" by (cases k) simp_all
      with b st assms(1) show ?thesis by auto
    qed
  qed
  from main show ?thesis
    by (simp add: respond_registered)
qed

theorem rejections_rendered_witness:
  "fst (serve example_env example_models GET_drinks_detail
          \<lparr>authorization = None, json_body = JNull\<rparr> [latte])
     = Response (envelope 401 ''rejected'') 401
   \<and> (401::nat) \<in> {400, 404, 405, 422, 401, 403}
   \<and> (\<exists>text. text \<noteq> [] \<and> envelope 401 ''rejected'' = envelope 401 text)"
  using rejections_rendered [OF example_message example_short example_long,
      of GET_drinks_detail "\<lparr>authorization = None, json_body = JNull\<rparr>" "[latte]"]
    no_header_served
  by simp

subsection \<open>The decorator hands the claims to the view\<close>

text \<open>
  Claim C6. When the gate succeeds, the wrapped view is called with the decoded
  claim set as its argument, whatever the view is; when the gate rejects, the
  outcome is the rejection and the unchanged table, whatever the view is.
\<close>

theorem requires_auth_passes_claims:
  "(gate env req permission = Inr claims
      \<longrightarrow> requires_auth env permission f req d = f claims req d)
   \<and> (gate env req permission = Inl k
      \<longrightarrow> requires_auth env permission f req d = (rejection env k, d))"
  by (simp add: requires_auth_def)

theorem requires_auth_passes_claims_witness:
  "requires_auth example_env ''get:drinks-detail''
      (\<lambda>jwt req d. (Inr (JStr (claim_iss jwt)), d)) (manager_request JNull) []
     = (Inr (JStr ''issuer''), [])
   \<and> requires_auth example_env ''get:drinks-detail''
      (\<lambda>jwt req d. (Inr (JStr (claim_iss jwt)), d))
      \<lparr>authorization = None, json_body = JNull\<rparr> [latte]
     = (rejection example_env MissingHeader, [latte])"
proof -
  have "requires_auth example_env ''get:drinks-detail''
      (\<lambda>jwt req d. (Inr (JStr (claim_iss jwt)), d)) (manager_request JNull) []
     = (Inr (JStr (claim_iss manager_claims)), [])"
    using requires_auth_passes_claims [THEN conjunct1, THEN mp, OF manager_gate_ok(1)] .
  moreover have "requires_auth example_env ''get:drinks-detail''
      (\<lambda>jwt req d. (Inr (JStr (claim_iss jwt)), d))
      \<lparr>authorization = None, json_body = JNull\<rparr> [latte]
     = (rejection example_env MissingHeader, [latte])"
    using requires_auth_passes_claims [THEN conjunct2, THEN mp, OF no_header_gate] .
  ultimately show ?thesis
    by (simp add: manager_claims_def)
qed

subsection \<open>Unsigned tokens\<close>

text \<open>
  Claim C7. A token of three segments whose header declares \<^verbatim>\<open>none\<close>, or any
  algorithm other than the allowed one, is rejected with \<open>UnsupportedAlgorithm\<close>
  whatever its payload segment holds, so \<open>verify\<close> never returns a claim set
  for it.
\<close>

theorem verify_unsupported_algorithm:
  assumes "split_on CHR ''.'' token = [h, p, s]"
    and "decode_header lib h = Some hdr"
    and "alg hdr = ''none'' \<or> alg hdr \<noteq> ALGORITHM"
  shows "verify lib cfg token key_set = Inl UnsupportedAlgorithm
         \<and> (\<forall>claims. verify lib cfg token key_set \<noteq> Inr claims)"
proof -
  from assms(3) have neq: "alg hdr \<noteq> ALGORITHM"
    by (auto simp: ALGORITHM_def)
  have "verify lib cfg token key_set = Inl UnsupportedAlgorithm"
    using assms(1,2) neq by (simp add: verify_def)
  then show ?thesis by simp
qed

theorem verify_unsupported_algorithm_witness:
  "verify example_lib (config example_env) ''unsigned.garbage.sig'' (signing_keys example_env)
     = Inl UnsupportedAlgorithm
   \<and> verify example_lib (config example_env) ''unsigned.manager.sig'' (signing_keys example_env)
     = Inl UnsupportedAlgorithm
   \<and> verify example_lib (config example_env) ''hs.manager.sig'' (signing_keys example_env)
     = Inl UnsupportedAlgorithm"
  using verify_unsupported_algorithm [OF garbage_segments example_lib_unsigned,
      of "config example_env" "signing_keys example_env"]
    verify_unsupported_algorithm [OF unsigned_segments example_lib_unsigned,
      of "config example_env" "signing_keys example_env"]
    verify_unsupported_algorithm [OF hs_segments example_lib_hs,
      of "config example_env" "signing_keys example_env"]
  by (simp add: ALGORITHM_def)

subsection \<open>A drink that does not exist\<close>

text \<open>
  Claim C8. When no drink has the given id, the \<^verbatim>\<open>try\<close> block of \<^verbatim>\<open>edit_drink\<close>
  and of \<^verbatim>\<open>delete_drink\<close> raises the 404 error, the \<^verbatim>\<open>except Exception\<close> clause
  replaces it by the 422 error, and an authorized request is answered with status
  422 and the table unchanged.
\<close>

theorem missing_drink_unprocessable:
  assumes "query_get d i = None"
  shows "edit_drink_try m i req d = (abort m 404, d)
       \<and> edit_drink m jwt i req d = (abort m 422, d)
       \<and> delete_drink_try m i d = (abort m 404, d)
       \<and> delete_drink m jwt i req d = (abort m 422, d)
       \<and> (gate env req ''patch:drinks'' = Inr jwt \<longrightarrow>
            serve env m (PATCH_drinks i) req d
              = (Response (envelope 422 ''unprocessable'') 422, d))
       \<and> (gate env req ''delete:drinks'' = Inr jwt \<longrightarrow>
            serve env m (DELETE_drinks i) req d
              = (Response (envelope 422 ''unprocessable'') 422, d))"
proof -
  have t1: "edit_drink_try m i req d = (abort m 404, d)"
    using assms by (simp add: edit_drink_try_def)
  have t2: "delete_drink_try m i d = (abort m 404, d)"
    using assms by (simp add: delete_drink_try_def)
  have e: "edit_drink m jwt i req d = (abort m 422, d)"
    by (simp add: edit_drink_def t1 except_Exception_abort_def abort_def)
  have dl: "delete_drink m jwt i req d = (abort m 422, d)"
    by (simp add: delete_drink_def t2 except_Exception_abort_def abort_def)
  have s1: "gate env req ''patch:drinks'' = Inr jwt \<Longrightarrow>
      serve env m (PATCH_drinks i) req d = (Response (envelope 422 ''unprocessable'') 422, d)"
    by (simp add: serve_def view_def requires_auth_def e respond_abort_422)
  have s2: "gate env req ''delete:drinks'' = Inr jwt \<Longrightarrow>
      serve env m (DELETE_drinks i) req d = (Response (envelope 422 ''unprocessable'') 422, d)"
    by (simp add: serve_def view_def requires_auth_def dl respond_abort_422)
  from t1 t2 e dl s1 s2 show ?thesis by blast
qed

theorem missing_drink_unprocessable_witness:
  "serve example_env example_models (PATCH_drinks 5) (manager_request JNull) [latte]
     = (Response (envelope 422 ''unprocessable'') 422, [latte])
   \<and> serve example_env example_models (DELETE_drinks 5) (manager_request JNull) [latte]
     = (Response (envelope 422 ''unprocessable'') 422, [latte])"
  using missing_drink_unprocessable [OF no_fifth_drink, of example_models
      "manager_request JNull" manager_claims example_env]
  by (simp add: manager_gate_ok)

subsection \<open>A creation request without its keys\<close>

text \<open>
  Claim C9. When the JSON object of a \<^verbatim>\<open>POST /drinks\<close> request lacks the key
  \<^verbatim>\<open>title\<close> or the key \<^verbatim>\<open>recipe\<close>, \<^verbatim>\<open>create_drink\<close> raises \<^verbatim>\<open>KeyError\<close> for the
  first missing key. The exception is not the 422 error: it leaves the view uncaught,
  so an authorized request is answered with the framework's 500 and the table
  unchanged.
\<close>

theorem create_drink_missing_key:
  assumes "json_body req = JObj kvs"
  shows "(map_of kvs ''title'' = None \<longrightarrow>
            create_drink m jwt req d = (Inl (KeyError ''title''), d))
       \<and> (map_of kvs ''title'' \<noteq> None \<and> map_of kvs ''recipe'' = None \<longrightarrow>
            create_drink m jwt req d = (Inl (KeyError ''recipe''), d))
       \<and> (map_of kvs ''title'' = None \<or> map_of kvs ''recipe'' = None \<longrightarrow>
            fst (create_drink m jwt req d) \<noteq> abort m 422
            \<and> respond (fst (create_drink m jwt req d)) = InternalServerError
            \<and> (gate env req ''post:drinks'' = Inr jwt \<longrightarrow>
                 serve env m POST_drinks req d = (InternalServerError, d)))"
proof -
  have a: "map_of kvs ''title'' = None \<Longrightarrow>
      create_drink m jwt req d = (Inl (KeyError ''title''), d)"
    using assms by (simp add: create_drink_def)
  have b: "map_of kvs ''title'' \<noteq> None \<Longrightarrow> map_of kvs ''recipe'' = None \<Longrightarrow>
      create_drink m jwt req d = (Inl (KeyError ''recipe''), d)"
    using assms by (auto simp: create_drink_def)
  have c: "map_of kvs ''title'' = None \<or> map_of kvs ''recipe'' = None \<Longrightarrow>
      \<exists>key. create_drink m jwt req d = (Inl (KeyError key), d)"
    using a b by blast
  have r: "\<And>key. respond (Inl (KeyError key)) = InternalServerError"
    by (simp add: respond_def)
  have n: "\<And>key. (Inl (KeyError key) :: exn + json) \<noteq> abort m 422"
    by (simp add: abort_def)
  have s: "map_of kvs ''title'' = None \<or> map_of kvs ''recipe'' = None \<Longrightarrow>
      gate env req ''post:drinks'' = Inr jwt \<Longrightarrow>
      serve env m POST_drinks req d = (InternalServerError, d)"
  proof -
    assume k: "map_of kvs ''title'' = None \<or> map_of kvs ''recipe'' = None"
      and g: "gate env req ''post:drinks'' = Inr jwt"
    from c [OF k] obtain key where "create_drink m jwt req d = (Inl (KeyError key), d)" ..
    then show ?thesis
      by (simp add: serve_def view_def requires_auth_def g r)
  qed
  show ?thesis
    using a b c r n s by (metis fst_conv)
qed

theorem create_drink_missing_key_witness:
  "create_drink example_models manager_claims
      (manager_request (JObj [(''title'', JStr ''mocha'')])) [latte]
     = (Inl (KeyError ''recipe''), [latte])
   \<and> serve example_env example_models POST_drinks
      (manager_request (JObj [(''title'', JStr ''mocha'')])) [latte]
     = (InternalServerError, [latte])"
  using create_drink_missing_key [OF title_only_body, of example_models manager_claims
      "[latte]" example_env]
  by (simp add: manager_gate_ok)

subsection \<open>The reading views leave the table alone\<close>

text \<open>
  Claim C10. \<^verbatim>\<open>get_drinks\<close> and \<^verbatim>\<open>get_drinks_detail\<close> return the table they were
  given, whether they succeed, raise or are rejected; a request after which the table
  differs was a \<^verbatim>\<open>POST\<close>, a \<^verbatim>\<open>PATCH\<close> or a \<^verbatim>\<open>DELETE\<close>.
\<close>

theorem reads_leave_store:
  "snd (get_drinks m req d) = d
   \<and> snd (get_drinks_detail m jwt req d) = d
   \<and> snd (serve env m GET_drinks req d) = d
   \<and> snd (serve env m GET_drinks_detail req d) = d
   \<and> (snd (serve env m ep req d) \<noteq> d \<longrightarrow>
        ep = POST_drinks \<or> (\<exists>i. ep = PATCH_drinks i) \<or> (\<exists>i. ep = DELETE_drinks i))"
proof -
  have a: "snd (get_drinks m req d) = d"
    by (simp add: get_drinks_def Let_def split: sum.splits)
  have b: "snd (get_drinks_detail m jwt req d) = d"
    by (simp add: get_drinks_detail_def Let_def split: sum.splits)
  have c: "snd (serve env m GET_drinks req d) = d"
    by (simp add: serve_def view_get_drinks_store)
  have e: "snd (serve env m GET_drinks_detail req d) = d"
    by (simp add: serve_def view_get_drinks_detail_store)
  have f: "snd (serve env m ep req d) \<noteq> d \<longrightarrow>
        ep = POST_drinks \<or> (\<exists>i. ep = PATCH_drinks i) \<or> (\<exists>i. ep = DELETE_drinks i)"
    using c e by (cases ep) auto
  from a b c e f show ?thesis by blast
qed

theorem reads_leave_store_witness:
  "snd (serve example_env example_models POST_drinks mocha_request [latte]) \<noteq> [latte]
   \<and> snd (serve example_env example_models GET_drinks mocha_request [latte]) = [latte]
   \<and> snd (serve example_env example_models GET_drinks_detail mocha_request [latte]) = [latte]"
  using reads_leave_store [of example_models mocha_request "[latte]" manager_claims
      example_env POST_drinks]
  by (simp add: mocha_served)

end
